theory Spec2Isabelle
  imports Complex_Main
begin

section \<open>Behavior models of the churn simulation (data_generation/behavior.py)\<close>

text \<open>
  The module draws monthly event rates for simulated customers. Numbers are modelled as
  real numbers (exact arithmetic: no rounding, no infinity); the one place where NaN is
  modelled is an empty cell of the column \<open>max\<close> and the rate clipped against it.
  The routines of numpy that the module calls without defining them (the eigenvalue
  solver, the seeding of the shared generator and the multivariate normal sampler) are
  parameters of the model, collected in a record; everything the module itself computes
  is defined here.
\<close>

subsection \<open>Errors\<close>

text \<open>The exceptions that can end the constructor, as values.\<close>

datatype error =
    FileNotFoundError string
  | KeyError string
  | ValueError
  | EOFError
  | TypeError
  | OSError string

subsection \<open>Matrices\<close>

type_synonym matrix = "real list list"

text \<open>A matrix is a list of rows. \<open>square\<close>: as many entries in each row as there are rows.\<close>

definition square :: "matrix \<Rightarrow> bool" where
  "square M = list_all (\<lambda>r. length r = length M) M"

definition ncols :: "matrix \<Rightarrow> nat" where
  "ncols M = (case M of [] \<Rightarrow> 0 | r # _ \<Rightarrow> length r)"

text \<open>\<open>matrix.T\<close>: entry \<open>(j, i)\<close> of the result is entry \<open>(i, j)\<close> of the matrix.\<close>

definition matrix_T :: "matrix \<Rightarrow> matrix" where
  "matrix_T M = map (\<lambda>j. map (\<lambda>r. r ! j) M) [0..<ncols M]"

text \<open>\<open>np.dot\<close> of two matrices: rows of the first against columns of the second.\<close>

definition inner :: "real list \<Rightarrow> real list \<Rightarrow> real" where
  "inner r c = sum_list (map2 (*) r c)"

definition np_dot :: "matrix \<Rightarrow> matrix \<Rightarrow> matrix" where
  "np_dot A B = map (\<lambda>r. map (\<lambda>c. inner r c) (matrix_T B)) A"

text \<open>
  \<open>np.allclose(a, b)\<close> with its default tolerances \<open>rtol = 1e-05\<close> and \<open>atol = 1e-08\<close>
  (the two locals of \<open>is_pos_def\<close> carry the same values and are not passed on): every
  entry satisfies \<open>|a - b| \<le> atol + rtol * |b|\<close>, and the shapes agree.
\<close>

definition rtol :: real where
  "rtol = 1 / 100000"

definition atol :: real where
  "atol = 1 / 100000000"

definition isclose :: "real \<Rightarrow> real \<Rightarrow> bool" where
  "isclose a b = (\<bar>a - b\<bar> \<le> atol + rtol * \<bar>b\<bar>)"

definition allclose :: "matrix \<Rightarrow> matrix \<Rightarrow> bool" where
  "allclose A B = list_all2 (list_all2 isclose) A B"

subsection \<open>The numpy routines taken as parameters\<close>

text \<open>
  \<open>np_eigvals\<close> is \<open>np.linalg.eigvals\<close> (the eigenvalues of a square matrix, read as
  real numbers), \<open>np_seed\<close> is \<open>np.random.seed\<close> (the state of the shared generator after
  seeding) and \<open>np_multivariate_normal\<close> is \<open>np.random.multivariate_normal\<close>: from the
  state of the shared generator, a mean vector and a covariance, the sample and the next
  state.
\<close>

record 'g numpy =
  np_eigvals :: "matrix \<Rightarrow> real list"
  np_seed :: "int \<Rightarrow> 'g"
  np_multivariate_normal :: "'g \<Rightarrow> real list \<Rightarrow> matrix \<Rightarrow> real list \<times> 'g"

subsection \<open>is_pos_def\<close>

text \<open>
  \<open>np.all(np.linalg.eigvals(matrix) > 0) and np.allclose(matrix, matrix.T)\<close>
\<close>

definition is_pos_def :: "'g numpy \<Rightarrow> matrix \<Rightarrow> bool" where
  "is_pos_def np M =
     (list_all (\<lambda>e. 0 < e) (np_eigvals np M) \<and> allclose M (matrix_T M))"

subsection \<open>The configuration file and the world around the constructor\<close>

text \<open>
  What \<open>pd.read_csv\<close> returns for a configuration file: the column \<open>behavior\<close>
  (absent when the header does not name it) and the numeric columns in file order, each
  with one value for every row. \<open>read_csv\<close> makes column names unique, so a name finds
  at most one column. An empty cell is read as NaN; that is modelled for the column
  \<open>max\<close> in its role as the column of maxima: \<open>gapped_max\<close> is the column \<open>max\<close> of a
  file in which some behavior has no maximum, with \<open>None\<close> for an empty cell (such a
  column is not among the value columns, and no behavior is called \<open>max\<close>). Empty cells
  of other columns are not modelled.
\<close>

record csv =
  behavior_column :: "string list option"
  value_columns :: "(string \<times> real list) list"
  gapped_max :: "real option list option"

text \<open>
  The world the constructor reads and writes: the files (by path, already parsed), the
  directory of the module, the environment variables, the lines waiting on standard
  input, the state of numpy's shared generator, and the directories that cannot be
  created.
\<close>

record 'g world =
  files :: "string \<rightharpoonup> csv"
  module_dir :: string
  environ :: "string \<rightharpoonup> string"
  stdin :: "string list"
  rng :: 'g
  unwritable :: "string set"

text \<open>
  The attributes of a \<open>NormalBehaviorModel\<close>; \<open>LogNormalBehaviorModel\<close> adds one. The
  maxima are absent when the file has no column \<open>max\<close>; otherwise there is one cell for
  every behavior, \<open>None\<close> where the cell is empty (NaN).
\<close>

record model =
  name :: string
  version :: "string option"
  behave_means :: "real list"
  behave_maxs :: "real option list option"
  behave_names :: "string list"
  behave_cov :: matrix

record lognormal_model = model +
  exp_base :: real

text \<open>How an f-string prints the version: \<open>None\<close> prints as the word.\<close>

definition str :: "string option \<Rightarrow> string" where
  "str v = (case v of None \<Rightarrow> ''None'' | Some s \<Rightarrow> s)"

definition model_path :: "'g world \<Rightarrow> string \<Rightarrow> string option \<Rightarrow> string" where
  "model_path w nm ver = module_dir w @ ''/conf/'' @ nm @ ''_'' @ str ver @ ''.csv''"

text \<open>\<open>os.path.join\<close> of two components on a POSIX system.\<close>

definition os_path_join :: "string \<Rightarrow> string \<Rightarrow> string" where
  "os_path_join a b =
     (if b \<noteq> [] \<and> hd b = CHR ''/'' then b
      else if a = [] \<or> last a = CHR ''/'' then a @ b
      else a @ ''/'' @ b)"

text \<open>
  \<open>model[self.behave_names]\<close>: the columns named by the list, in the order of the list;
  a name that is no column raises \<open>KeyError\<close>.
\<close>

fun frame_select :: "(string \<times> real list) list \<Rightarrow> string list \<Rightarrow> error + real list list" where
  "frame_select cols [] = Inr []"
| "frame_select cols (b # bs) =
     (case map_of cols b of
        None \<Rightarrow> Inl (KeyError b)
      | Some c \<Rightarrow>
          (case frame_select cols bs of
             Inl e \<Rightarrow> Inl e
           | Inr cs \<Rightarrow> Inr (c # cs)))"

text \<open>The values of a frame with \<open>n\<close> rows, given by its columns, as a matrix of rows.\<close>

definition frame_values :: "nat \<Rightarrow> real list list \<Rightarrow> matrix" where
  "frame_values n cs = map (\<lambda>i. map (\<lambda>c. c ! i) cs) [0..<n]"

text \<open>\<open>model.get('max')\<close>: the column \<open>max\<close>, or \<open>None\<close> when the file has none.\<close>

definition frame_get_max :: "csv \<Rightarrow> real option list option" where
  "frame_get_max f =
     (case map_of (value_columns f) ''max'' of
        Some c \<Rightarrow> Some (map Some c)
      | None \<Rightarrow> gapped_max f)"

text \<open>
  Lines 78 to 88 of the constructor: read the file, index it by \<open>behavior\<close>, take the
  means, the optional maxima, the names and the covariance block, then check that every
  name is a column.
\<close>

definition load_parameters ::
  "'g world \<Rightarrow> string \<Rightarrow> string option \<Rightarrow> error + model" where
  "load_parameters w nm ver =
     (case files w (model_path w nm ver) of
        None \<Rightarrow> Inl (FileNotFoundError (model_path w nm ver))
      | Some f \<Rightarrow>
     (case behavior_column f of
        None \<Rightarrow> Inl (KeyError ''behavior'')
      | Some names \<Rightarrow>
     (case map_of (value_columns f) ''mean'' of
        None \<Rightarrow> Inl (KeyError ''mean'')
      | Some means \<Rightarrow>
     (case frame_select (value_columns f) names of
        Inl e \<Rightarrow> Inl e
      | Inr cs \<Rightarrow>
          if \<not> list_all (\<lambda>b. b \<in> set (map fst (value_columns f))) names
          then Inl ValueError
          else Inr \<lparr> name = nm, version = ver, behave_means = means,
                     behave_maxs = frame_get_max f,
                     behave_names = names,
                     behave_cov = frame_values (length names) cs \<rparr>))))"

text \<open>
  Lines 89 and 90: \<open>if random_seed: np.random.seed(random_seed)\<close>. \<open>None\<close> and \<open>0\<close> are
  both false in a condition.
\<close>

definition seed_generator :: "'g numpy \<Rightarrow> int option \<Rightarrow> 'g \<Rightarrow> 'g" where
  "seed_generator np random_seed g =
     (case random_seed of
        None \<Rightarrow> g
      | Some s \<Rightarrow> if s \<noteq> 0 then np_seed np s else g)"

text \<open>
  Lines 93 and 94: the prompt is shown only when the check fails (\<open>and\<close> evaluates its
  right side only then); \<open>input\<close> takes the next line of standard input and raises
  \<open>EOFError\<close> when there is none; the answers \<open>y\<close> and \<open>Y\<close> replace the covariance by its
  product with its transpose, every other answer leaves it as it is.
\<close>

definition correct :: "matrix \<Rightarrow> matrix" where
  "correct M = np_dot M (matrix_T M)"

definition handle_covariance ::
  "'g numpy \<Rightarrow> matrix \<Rightarrow> string list \<Rightarrow> error + (matrix \<times> string list)" where
  "handle_covariance np cov inp =
     (if \<not> is_pos_def np cov then
        (case inp of
           [] \<Rightarrow> Inl EOFError
         | answer # rest \<Rightarrow>
             if answer \<in> {''y'', ''Y''} then Inr (correct cov, rest) else Inr (cov, rest))
      else Inr (cov, inp))"

text \<open>
  Lines 97 to 99: the destination is joined from \<open>os.getenv('CHURN_OUT_DIR')\<close>, which is
  \<open>None\<close> for an unset variable, and \<open>os.path.join\<close> raises \<open>TypeError\<close> on \<open>None\<close>; the
  directory is created and the configuration file copied into it.
\<close>

definition backup :: "'g world \<Rightarrow> string \<Rightarrow> string option \<Rightarrow> error + 'g world" where
  "backup w nm ver =
     (case environ w ''CHURN_OUT_DIR'' of
        None \<Rightarrow> Inl TypeError
      | Some out \<Rightarrow>
          let save_path = os_path_join out nm in
          if save_path \<in> unwritable w then Inl (OSError save_path)
          else Inr (w\<lparr>files := (files w)
                 (os_path_join save_path (nm @ ''_'' @ str ver @ ''_simulation_model.csv'')
                    := files w (model_path w nm ver))\<rparr>))"

text \<open>\<open>NormalBehaviorModel.__init__\<close>: the four steps in order; the first error ends it.\<close>

definition NormalBehaviorModel_init ::
  "'g numpy \<Rightarrow> string \<Rightarrow> int option \<Rightarrow> string option \<Rightarrow> 'g world
     \<Rightarrow> error + (model \<times> 'g world)" where
  "NormalBehaviorModel_init np nm random_seed ver w =
     (case load_parameters w nm ver of
        Inl e \<Rightarrow> Inl e
      | Inr m \<Rightarrow>
          let w1 = w\<lparr>rng := seed_generator np random_seed (rng w)\<rparr> in
          (case handle_covariance np (behave_cov m) (stdin w1) of
             Inl e \<Rightarrow> Inl e
           | Inr (cov, rest) \<Rightarrow>
               (case backup (w1\<lparr>stdin := rest\<rparr>) nm ver of
                  Inl e \<Rightarrow> Inl e
                | Inr w2 \<Rightarrow> Inr (m\<lparr>behave_cov := cov\<rparr>, w2))))"

text \<open>
  \<open>LogNormalBehaviorModel.__init__\<close>: keeps the base of the exponential and runs the
  constructor above.
\<close>

definition LogNormalBehaviorModel_init ::
  "'g numpy \<Rightarrow> string \<Rightarrow> real \<Rightarrow> int option \<Rightarrow> string option \<Rightarrow> 'g world
     \<Rightarrow> error + (lognormal_model \<times> 'g world)" where
  "LogNormalBehaviorModel_init np nm base random_seed ver w =
     (case NormalBehaviorModel_init np nm random_seed ver w of
        Inl e \<Rightarrow> Inl e
      | Inr (m, w') \<Rightarrow> Inr (model.extend m \<lparr>exp_base = base\<rparr>, w'))"

subsection \<open>Generating a customer\<close>

text \<open>
  What is handed to the \<open>Customer\<close> class: the frame of names and rates, the start of the
  month, the arguments, and the channel name when one is passed. The rates of the Normal
  variant are numbers; a rate of the LogNormal variant is a number or NaN (\<open>None\<close>).
\<close>

record ('d, 'a, 'r) customer =
  behavior :: "string list"
  monthly_rate :: "'r list"
  start_of_month :: 'd
  args :: 'a
  channel_name :: "string option option"

text \<open>
  \<open>Series.min\<close>: the least value; a series without values has none (there is then no
  behavior, the sample is empty and nothing is clipped).
\<close>

definition series_min :: "real list \<Rightarrow> real option" where
  "series_min xs = (case xs of [] \<Rightarrow> None | x # ys \<Rightarrow> Some (fold min ys x))"

definition clip_min :: "real option \<Rightarrow> real list \<Rightarrow> real list" where
  "clip_min lo xs = (case lo of None \<Rightarrow> xs | Some l \<Rightarrow> map (\<lambda>x. max x l) xs)"

text \<open>
  \<open>NormalBehaviorModel.generate_customer\<close>: one sample of the multivariate normal
  distribution, clipped from below at one percent of the least mean. The shared
  generator moves on.
\<close>

definition generate_customer ::
  "'g numpy \<Rightarrow> 'z model_scheme \<Rightarrow> 'd \<Rightarrow> 'a \<Rightarrow> 'g \<Rightarrow> ('d, 'a, real) customer \<times> 'g" where
  "generate_customer np m start a g =
     (let (draw, g') = np_multivariate_normal np g (behave_means m) (behave_cov m);
          rates = clip_min (map_option (\<lambda>l. l * 0.01) (series_min (behave_means m))) draw
      in (\<lparr> behavior = behave_names m, monthly_rate = rates, start_of_month = start,
             args = a, channel_name = None \<rparr>, g'))"

text \<open>
  The two functions of \<open>LogNormalBehaviorModel\<close>: \<open>np.log(x) / np.log(exp_base)\<close> and
  \<open>np.power(exp_base, x)\<close>.
\<close>

definition log_fun :: "real \<Rightarrow> real \<Rightarrow> real" where
  "log_fun base x = ln x / ln base"

definition exp_fun :: "real \<Rightarrow> real \<Rightarrow> real" where
  "exp_fun base x = base powr x"

text \<open>
  \<open>rates.clip(max=self.behave_maxs)\<close>: each rate against the maximum of its row; against
  NaN the result is NaN.
\<close>

definition clip_max :: "real option list \<Rightarrow> real list \<Rightarrow> real option list" where
  "clip_max his xs = map2 (\<lambda>x h. map_option (min x) h) xs his"

text \<open>
  \<open>LogNormalBehaviorModel.generate_customer\<close>: a sample around the logarithms of the
  means, mapped back by the exponential, shifted down by 0.667 with a floor of 0.333, and
  clipped at the maxima when the file has a \<open>max\<close> column.
\<close>

definition lognormal_generate_customer ::
  "'g numpy \<Rightarrow> 'z lognormal_model_scheme \<Rightarrow> 'd \<Rightarrow> 'a \<Rightarrow> 'g
     \<Rightarrow> ('d, 'a, real option) customer \<times> 'g" where
  "lognormal_generate_customer np m start a g =
     (let (draw, g') = np_multivariate_normal np g
                         (map (log_fun (exp_base m)) (behave_means m)) (behave_cov m);
          rates = map (exp_fun (exp_base m)) draw;
          rates = map (\<lambda>r. max (r - 0.667) 0.333) rates;
          rates = (case behave_maxs m of
                     None \<Rightarrow> map Some rates
                   | Some his \<Rightarrow> clip_max his rates)
      in (\<lparr> behavior = behave_names m, monthly_rate = rates, start_of_month = start,
             args = a, channel_name = Some (version m) \<rparr>, g'))"

subsection \<open>Registering the event types\<close>

text \<open>
  The two statements the module sends to the database, and a database that holds one
  \<open>event_type\<close> table (identifier, name) for each schema and remembers what \<open>run\<close>
  executed. \<open>db.one\<close> gives the identifier of the first row found, or \<open>None\<close>.
\<close>

datatype sql =
    Select_event_type_id string string
  | Insert_event_type string int string

record db =
  event_type :: "string \<Rightarrow> (int \<times> string) list"
  executed :: "sql list"

definition event_id_sql :: "string \<Rightarrow> string \<Rightarrow> sql" where
  "event_id_sql schema event_name = Select_event_type_id schema event_name"

fun db_one :: "db \<Rightarrow> sql \<Rightarrow> int option" where
  "db_one d (Select_event_type_id schema event_name) =
     (case filter (\<lambda>row. snd row = event_name) (event_type d schema) of
        [] \<Rightarrow> None
      | row # _ \<Rightarrow> Some (fst row))"
| "db_one d (Insert_event_type schema i event_name) = None"

fun db_run :: "db \<Rightarrow> sql \<Rightarrow> db" where
  "db_run d (Insert_event_type schema i event_name) =
     d\<lparr> event_type := (event_type d)(schema := event_type d schema @ [(i, event_name)]),
        executed := executed d @ [Insert_event_type schema i event_name] \<rparr>"
| "db_run d (Select_event_type_id schema event_name) =
     d\<lparr> executed := executed d @ [Select_event_type_id schema event_name] \<rparr>"

text \<open>
  \<open>BehaviorModel.insert_event_types\<close>: for every name with its position, insert the
  pair unless a row with that name is found.
\<close>

definition register_event :: "string \<Rightarrow> nat \<times> string \<Rightarrow> db \<Rightarrow> db" where
  "register_event schema_name p d =
     (if db_one d (event_id_sql schema_name (snd p)) = None
      then db_run d (Insert_event_type schema_name (int (fst p)) (snd p))
      else d)"

definition insert_event_types :: "'z model_scheme \<Rightarrow> string \<Rightarrow> db \<Rightarrow> db" where
  "insert_event_types m schema_name d =
     fold (register_event schema_name) (enumerate 0 (behave_names m)) d"

subsection \<open>Runs: a construction followed by generation calls\<close>

text \<open>
  The calls of \<open>generate_customer\<close> one after the other, each starting from the state of
  the shared generator that the call before left.
\<close>

fun generate_customers ::
  "'g numpy \<Rightarrow> 'z model_scheme \<Rightarrow> ('d \<times> 'a) list \<Rightarrow> 'g
     \<Rightarrow> ('d, 'a, real) customer list \<times> 'g" where
  "generate_customers np m [] g = ([], g)"
| "generate_customers np m (call # calls) g =
     (let (c, g') = generate_customer np m (fst call) (snd call) g;
          (cs, g'') = generate_customers np m calls g'
      in (c # cs, g''))"

fun lognormal_generate_customers ::
  "'g numpy \<Rightarrow> 'z lognormal_model_scheme \<Rightarrow> ('d \<times> 'a) list \<Rightarrow> 'g
     \<Rightarrow> ('d, 'a, real option) customer list \<times> 'g" where
  "lognormal_generate_customers np m [] g = ([], g)"
| "lognormal_generate_customers np m (call # calls) g =
     (let (c, g') = lognormal_generate_customer np m (fst call) (snd call) g;
          (cs, g'') = lognormal_generate_customers np m calls g'
      in (c # cs, g''))"

text \<open>The rate vectors of a run: the model is constructed, then the calls are made.\<close>

definition normal_run ::
  "'g numpy \<Rightarrow> string \<Rightarrow> int option \<Rightarrow> string option \<Rightarrow> ('d \<times> 'a) list \<Rightarrow> 'g world
     \<Rightarrow> error + real list list" where
  "normal_run np nm random_seed ver calls w =
     (case NormalBehaviorModel_init np nm random_seed ver w of
        Inl e \<Rightarrow> Inl e
      | Inr (m, w') \<Rightarrow> Inr (map monthly_rate (fst (generate_customers np m calls (rng w')))))"

definition lognormal_run ::
  "'g numpy \<Rightarrow> string \<Rightarrow> real \<Rightarrow> int option \<Rightarrow> string option \<Rightarrow> ('d \<times> 'a) list \<Rightarrow> 'g world
     \<Rightarrow> error + real option list list" where
  "lognormal_run np nm base random_seed ver calls w =
     (case LogNormalBehaviorModel_init np nm base random_seed ver w of
        Inl e \<Rightarrow> Inl e
      | Inr (m, w') \<Rightarrow>
          Inr (map monthly_rate (fst (lognormal_generate_customers np m calls (rng w')))))"

subsection \<open>The properties in the words of the specification\<close>

text \<open>
  Symmetry within the tolerance: \<open>|a - a\<^sup>t| \<le> atol + rtol * |a\<^sup>t|\<close> at every position,
  with \<open>rtol = 1e-5\<close> and \<open>atol = 1e-8\<close>.
\<close>

definition symmetric_within_tolerance :: "matrix \<Rightarrow> bool" where
  "symmetric_within_tolerance M =
     (\<forall>i<length M. \<forall>j<length M.
        \<bar>M ! i ! j - M ! j ! i\<bar> \<le> 0.00000001 + 0.00001 * \<bar>M ! j ! i\<bar>)"


text \<open>The names that the \<open>event_type\<close> table of a schema holds.\<close>

definition registered :: "db \<Rightarrow> string \<Rightarrow> string set" where
  "registered d schema_name = snd ` set (event_type d schema_name)"

text \<open>
  The behaviors a registration has to insert: each with its position, where the name is
  not in the table and stands at no earlier position of the list.
\<close>

definition missing_event_types :: "db \<Rightarrow> string \<Rightarrow> string list \<Rightarrow> (nat \<times> string) list" where
  "missing_event_types d schema_name names =
     filter (\<lambda>p. snd p \<notin> registered d schema_name \<and> snd p \<notin> set (take (fst p) names))
       (enumerate 0 names)"

definition insert_statement :: "string \<Rightarrow> nat \<times> string \<Rightarrow> sql" where
  "insert_statement schema_name p = Insert_event_type schema_name (int (fst p)) (snd p)"

definition event_type_row :: "nat \<times> string \<Rightarrow> int \<times> string" where
  "event_type_row p = (int (fst p), snd p)"

text \<open>The same from position \<open>n\<close> of the loop on, for the rest \<open>bs\<close> of the list.\<close>

definition missing_from :: "nat \<Rightarrow> db \<Rightarrow> string \<Rightarrow> string list \<Rightarrow> (nat \<times> string) list" where
  "missing_from n d schema_name bs =
     filter (\<lambda>p. snd p \<notin> registered d schema_name \<and> snd p \<notin> set (take (fst p - n) bs))
       (enumerate n bs)"

subsection \<open>Concrete inputs\<close>

text \<open>
  A stand-in for the numpy routines, on which the model can be run: the eigenvalues of a
  triangular matrix are the entries of its diagonal (the examples below use triangular
  matrices only); the generator is a counter, seeding sets it, and a sample is the mean
  vector lowered by the counter.
\<close>

definition diagonal :: "matrix \<Rightarrow> real list" where
  "diagonal M = map (\<lambda>i. M ! i ! i) [0..<length M]"

definition counter_seed :: "int \<Rightarrow> nat" where
  "counter_seed s = nat \<bar>s\<bar>"

definition counter_sample :: "nat \<Rightarrow> real list \<Rightarrow> matrix \<Rightarrow> real list \<times> nat" where
  "counter_sample g mean cov = (map (\<lambda>x. x - real g) mean, Suc g)"

definition example_numpy :: "nat numpy" where
  "example_numpy =
     \<lparr> np_eigvals = diagonal, np_seed = counter_seed,
       np_multivariate_normal = counter_sample \<rparr>"

text \<open>
  Configuration files: one behavior with a negative variance; one behavior with the
  variance zero; two behaviors with a valid covariance and maxima; two behaviors of which
  the second has no column (and, below, two behaviors of which the first has no maximum).
\<close>

definition negative_variance_csv :: csv where
  "negative_variance_csv =
     \<lparr> behavior_column = Some [''login''],
       value_columns = [(''mean'', [10]), (''login'', [-1])],
       gapped_max = None \<rparr>"

definition zero_variance_csv :: csv where
  "zero_variance_csv =
     \<lparr> behavior_column = Some [''login''],
       value_columns = [(''mean'', [10]), (''login'', [0])],
       gapped_max = None \<rparr>"

definition two_behaviors_csv :: csv where
  "two_behaviors_csv =
     \<lparr> behavior_column = Some [''login'', ''post''],
       value_columns = [(''mean'', [10, 5]), (''max'', [20, 0.1]),
                        (''login'', [4, 0]), (''post'', [0, 1])],
       gapped_max = None \<rparr>"

definition missing_column_csv :: csv where
  "missing_column_csv =
     \<lparr> behavior_column = Some [''login'', ''post''],
       value_columns = [(''mean'', [10, 5]), (''login'', [4, 0])],
       gapped_max = None \<rparr>"

text \<open>
  Two behaviors with maxima of which the first is left empty and the second is below the
  floor of the LogNormal variant.
\<close>

definition gapped_max_csv :: csv where
  "gapped_max_csv =
     \<lparr> behavior_column = Some [''login'', ''post''],
       value_columns = [(''mean'', [10, 5]), (''login'', [4, 0]), (''post'', [0, 1])],
       gapped_max = Some [None, Some 0.1] \<rparr>"

text \<open>
  A world that holds the five files, with \<open>CHURN_OUT_DIR\<close> set, the answer \<open>n\<close> waiting on
  standard input and the counter at 7.
\<close>

definition example_world :: "nat world" where
  "example_world =
     \<lparr> files = [''/sim/conf/neg_v1.csv'' \<mapsto> negative_variance_csv,
                ''/sim/conf/zero_v1.csv'' \<mapsto> zero_variance_csv,
                ''/sim/conf/two_v1.csv'' \<mapsto> two_behaviors_csv,
                ''/sim/conf/miss_v1.csv'' \<mapsto> missing_column_csv,
                ''/sim/conf/gap_v1.csv'' \<mapsto> gapped_max_csv],
       module_dir = ''/sim'',
       environ = [''CHURN_OUT_DIR'' \<mapsto> ''/out''],
       stdin = [''n''],
       rng = 7,
       unwritable = {} \<rparr>"

text \<open>A database in which the schema \<open>churn\<close> already holds the event type \<open>login\<close>.\<close>

definition example_db :: db where
  "example_db =
     \<lparr> event_type = (\<lambda>schema_name. if schema_name = ''churn'' then [(0, ''login'')] else []),
       executed = [] \<rparr>"

text \<open>The model that the constructor builds from the file with two behaviors.\<close>

definition example_model :: model where
  "example_model =
     \<lparr> name = ''two'', version = Some ''v1'', behave_means = [10, 5],
       behave_maxs = Some [Some 20, Some 0.1], behave_names = [''login'', ''post''],
       behave_cov = [[4, 0], [0, 1]] \<rparr>"

text \<open>A database without any event type.\<close>

definition fresh_db :: db where
  "fresh_db = \<lparr> event_type = (\<lambda>schema_name. []), executed = [] \<rparr>"


text \<open>
  The model that the constructor builds from the file with the empty maximum, and the
  same as a LogNormal model with base 2.
\<close>

definition gapped_max_model :: model where
  "gapped_max_model =
     \<lparr> name = ''gap'', version = Some ''v1'', behave_means = [10, 5],
       behave_maxs = Some [None, Some 0.1], behave_names = [''login'', ''post''],
       behave_cov = [[4, 0], [0, 1]] \<rparr>"


text \<open>The model that the constructor builds from the file with the negative variance.\<close>

definition negative_variance_model :: model where
  "negative_variance_model =
     \<lparr> name = ''neg'', version = Some ''v1'', behave_means = [10],
       behave_maxs = None, behave_names = [''login''], behave_cov = [[-1]] \<rparr>"

section \<open>Matrices: transposition and the product with the transpose\<close>

lemma ncols_square: "square M \<Longrightarrow> ncols M = length M"
  by (cases M) (simp_all add: ncols_def square_def)

lemma square_row: "square M \<Longrightarrow> i < length M \<Longrightarrow> length (M ! i) = length M"
  by (simp add: square_def list_all_length)

lemma length_matrix_T: "square M \<Longrightarrow> length (matrix_T M) = length M"
  by (simp add: matrix_T_def ncols_square)

lemma matrix_T_nth:
  "square M \<Longrightarrow> i < length M \<Longrightarrow> j < length M \<Longrightarrow> matrix_T M ! i ! j = M ! j ! i"
  by (simp add: matrix_T_def ncols_square)

lemma matrix_T_row_length:
  "square M \<Longrightarrow> i < length M \<Longrightarrow> length (matrix_T M ! i) = length M"
  by (simp add: matrix_T_def ncols_square)

lemma square_matrix_T: "square M \<Longrightarrow> square (matrix_T M)"
  by (simp add: square_def list_all_length length_matrix_T matrix_T_row_length
      del: length_map)

lemma matrix_T_involution:
  assumes "square M"
  shows "matrix_T (matrix_T M) = M"
proof (rule nth_equalityI)
  show "length (matrix_T (matrix_T M)) = length M"
    using assms by (simp add: length_matrix_T square_matrix_T)
next
  fix i assume "i < length (matrix_T (matrix_T M))"
  then have i: "i < length M"
    using assms by (simp add: length_matrix_T square_matrix_T)
  show "matrix_T (matrix_T M) ! i = M ! i"
  proof (rule nth_equalityI)
    show "length (matrix_T (matrix_T M) ! i) = length (M ! i)"
      using assms i
      by (simp add: matrix_T_row_length square_matrix_T length_matrix_T square_row)
  next
    fix j assume "j < length (matrix_T (matrix_T M) ! i)"
    then have j: "j < length M"
      using assms i by (simp add: matrix_T_row_length square_matrix_T length_matrix_T)
    show "matrix_T (matrix_T M) ! i ! j = M ! i ! j"
      using assms i j
      by (simp add: matrix_T_nth square_matrix_T length_matrix_T)
  qed
qed

lemma allclose_T_iff:
  assumes "square M"
  shows "allclose M (matrix_T M) = symmetric_within_tolerance M"
  using assms
  by (auto simp add: allclose_def symmetric_within_tolerance_def list_all2_conv_all_nth
      length_matrix_T matrix_T_nth matrix_T_row_length square_row isclose_def atol_def rtol_def)

lemma allclose_refl: "allclose A A"
  by (simp add: allclose_def list_all2_conv_all_nth isclose_def atol_def rtol_def)

lemma inner_commute: "inner r c = inner c r"
proof -
  have "map2 (*) r c = map2 (*) c r"
    by (induction r c rule: list_induct2') (simp_all add: mult.commute)
  then show ?thesis by (simp add: inner_def)
qed

lemma inner_sum:
  assumes "length r = n" "length c = n"
  shows "inner r c = (\<Sum>k<n. r ! k * c ! k)"
proof -
  have "sum_list (map2 (*) r c) = (\<Sum>k<length (map2 (*) r c). map2 (*) r c ! k)"
    by (simp add: sum_list_sum_nth atLeast0LessThan)
  with assms show ?thesis by (simp add: inner_def)
qed

lemma length_correct: "length (correct M) = length M"
  by (simp add: correct_def np_dot_def)

lemma correct_row_length:
  "square M \<Longrightarrow> i < length M \<Longrightarrow> length (correct M ! i) = length M"
  by (simp add: correct_def np_dot_def length_matrix_T square_matrix_T)

lemma square_correct: "square M \<Longrightarrow> square (correct M)"
  by (simp add: square_def[of "correct M"] list_all_length length_correct correct_row_length)

lemma correct_nth:
  assumes "square M" "i < length M" "j < length M"
  shows "correct M ! i ! j = inner (M ! i) (M ! j)"
  using assms
  by (simp add: correct_def np_dot_def matrix_T_involution length_matrix_T square_matrix_T)

lemma correct_T:
  assumes "square M"
  shows "matrix_T (correct M) = correct M"
proof (rule nth_equalityI)
  show "length (matrix_T (correct M)) = length (correct M)"
    using assms by (simp add: length_matrix_T square_correct)
next
  fix i assume "i < length (matrix_T (correct M))"
  then have i: "i < length M"
    using assms by (simp add: length_matrix_T square_correct length_correct)
  show "matrix_T (correct M) ! i = correct M ! i"
  proof (rule nth_equalityI)
    show "length (matrix_T (correct M) ! i) = length (correct M ! i)"
      using assms i
      by (simp add: matrix_T_row_length square_correct length_correct correct_row_length)
  next
    fix j assume "j < length (matrix_T (correct M) ! i)"
    then have j: "j < length M"
      using assms i by (simp add: matrix_T_row_length square_correct length_correct)
    show "matrix_T (correct M) ! i ! j = correct M ! i ! j"
      using assms i j
      by (simp add: matrix_T_nth square_correct length_correct correct_nth inner_commute)
  qed
qed

lemma gram_quadratic_form:
  fixes v :: "nat \<Rightarrow> real" and a :: "nat \<Rightarrow> nat \<Rightarrow> real"
  shows "(\<Sum>i<n. \<Sum>j<n. v i * (\<Sum>k<n. a i k * a j k) * v j) = (\<Sum>k<n. (\<Sum>i<n. v i * a i k)\<^sup>2)"
proof -
  have "(\<Sum>k<n. (\<Sum>i<n. v i * a i k)\<^sup>2)
      = (\<Sum>k<n. \<Sum>i<n. \<Sum>j<n. (v i * a i k) * (v j * a j k))"
    by (simp add: power2_eq_square sum_product)
  also have "\<dots> = (\<Sum>i<n. \<Sum>k<n. \<Sum>j<n. (v i * a i k) * (v j * a j k))"
    by (rule sum.swap)
  also have "\<dots> = (\<Sum>i<n. \<Sum>j<n. \<Sum>k<n. (v i * a i k) * (v j * a j k))"
    by (rule sum.cong [OF refl]) (rule sum.swap)
  also have "\<dots> = (\<Sum>i<n. \<Sum>j<n. v i * (\<Sum>k<n. a i k * a j k) * v j)"
    by (simp add: sum_distrib_left sum_distrib_right mult_ac)
  finally show ?thesis by simp
qed

lemma correct_quadratic_form_nonneg:
  assumes "square M"
  shows "0 \<le> (\<Sum>i<length M. \<Sum>j<length M. v ! i * correct M ! i ! j * v ! j)"
proof -
  have "(\<Sum>i<length M. \<Sum>j<length M. v ! i * correct M ! i ! j * v ! j)
      = (\<Sum>i<length M. \<Sum>j<length M. v ! i * (\<Sum>k<length M. M ! i ! k * M ! j ! k) * v ! j)"
    using assms by (simp add: correct_nth inner_sum square_row)
  also have "\<dots> = (\<Sum>k<length M. (\<Sum>i<length M. v ! i * M ! i ! k)\<^sup>2)"
    by (rule gram_quadratic_form)
  also have "0 \<le> \<dots>" by (simp add: sum_nonneg)
  finally show ?thesis .
qed

lemma all_less_Suc_conv: "(\<forall>i<Suc n. P i) = (P n \<and> (\<forall>i<n. P i))"
  by (auto simp add: less_Suc_eq)

section \<open>The validity check\<close>

text \<open>
  C3. For every square matrix, \<open>is_pos_def\<close> is true exactly when the matrix is symmetric
  within the tolerance \<open>|a - a\<^sup>t| \<le> atol + rtol * |a\<^sup>t|\<close> (\<open>rtol = 1e-5\<close>, \<open>atol = 1e-8\<close>)
  and every eigenvalue that the solver reports for it is strictly positive.
\<close>

theorem is_pos_def_iff_symmetric_and_positive:
  "square M \<Longrightarrow>
     is_pos_def np M =
       (symmetric_within_tolerance M \<and> (\<forall>e \<in> set (np_eigvals np M). 0 < e))"
  by (auto simp add: is_pos_def_def allclose_T_iff list_all_iff)

theorem is_pos_def_iff_symmetric_and_positive_witness:
  "square [[4, 0], [0, 1]] \<and> is_pos_def example_numpy [[4, 0], [0, 1]]
   \<and> square [[1, 2], [0, 1]] \<and> \<not> is_pos_def example_numpy [[1, 2], [0, 1]]
   \<and> square [[1, 0], [0, -1]] \<and> \<not> is_pos_def example_numpy [[1, 0], [0, -1]]"
proof -
  have sq: "square [[4, 0], [0, 1]]" "square [[1, 2], [0, 1]]" "square [[1, 0], [0, -1]]"
    by (simp_all add: square_def)
  have ev: "np_eigvals example_numpy [[4, 0], [0, 1]] = [4, 1]"
    "np_eigvals example_numpy [[1, 2], [0, 1]] = [1, 1]"
    "np_eigvals example_numpy [[1, 0], [0, -1]] = [1, -1]"
    by (simp_all add: example_numpy_def diagonal_def upt_rec)
  have sym: "symmetric_within_tolerance [[4, 0], [0, 1]]"
    "\<not> symmetric_within_tolerance [[1, 2], [0, 1]]"
    by (simp_all add: symmetric_within_tolerance_def all_less_Suc_conv)
  show ?thesis
    using sq sym ev is_pos_def_iff_symmetric_and_positive [OF sq(1), of example_numpy]
      is_pos_def_iff_symmetric_and_positive [OF sq(2), of example_numpy]
      is_pos_def_iff_symmetric_and_positive [OF sq(3), of example_numpy]
    by simp
qed

section \<open>The correction\<close>

text \<open>
  C4, as the code has it. For every square matrix \<open>M\<close> the correction is the product of
  \<open>M\<close> with its transpose: entry \<open>(i, j)\<close> is the sum of \<open>M i k * M j k\<close> over \<open>k\<close>. The
  product is square, symmetric (so it passes the symmetry half of the check) and
  positive semidefinite (its quadratic form is never negative). It passes the check
  exactly when every eigenvalue reported for it is strictly positive, which the
  construction does not promise.
\<close>

theorem correct_is_product_with_transpose:
  "square M \<Longrightarrow>
     correct M = np_dot M (matrix_T M)
     \<and> square (correct M)
     \<and> (\<forall>i<length M. \<forall>j<length M. correct M ! i ! j = (\<Sum>k<length M. M ! i ! k * M ! j ! k))
     \<and> symmetric_within_tolerance (correct M)
     \<and> (\<forall>v. 0 \<le> (\<Sum>i<length M. \<Sum>j<length M. v ! i * correct M ! i ! j * v ! j))
     \<and> is_pos_def np (correct M) = (\<forall>e \<in> set (np_eigvals np (correct M)). 0 < e)"
proof (intro conjI allI impI)
  assume sq: "square M"
  show "correct M = np_dot M (matrix_T M)" by (simp add: correct_def)
  show "square (correct M)" using sq by (rule square_correct)
  have ac: "allclose (correct M) (matrix_T (correct M))"
    using sq by (simp add: correct_T allclose_refl)
  then show "symmetric_within_tolerance (correct M)"
    using sq by (simp add: allclose_T_iff square_correct)
  show "is_pos_def np (correct M) = (\<forall>e \<in> set (np_eigvals np (correct M)). 0 < e)"
    using ac by (simp add: is_pos_def_def list_all_iff)
next
  fix i j assume sq: "square M" and i: "i < length M" and j: "j < length M"
  show "correct M ! i ! j = (\<Sum>k<length M. M ! i ! k * M ! j ! k)"
    using sq i j by (simp add: correct_nth inner_sum square_row)
next
  fix v assume sq: "square M"
  show "0 \<le> (\<Sum>i<length M. \<Sum>j<length M. v ! i * correct M ! i ! j * v ! j)"
    using sq by (rule correct_quadratic_form_nonneg)
qed

theorem correct_is_product_with_transpose_witness:
  "square [[1, 2], [3, 4]] \<and> correct [[1, 2], [3, 4]] = [[5, 11], [11, 25]]
   \<and> symmetric_within_tolerance (correct [[1, 2], [3, 4]])"
proof -
  have sq: "square [[1, 2], [3, 4]]" by (simp add: square_def)
  have "np_dot [[1, 2], [3, 4]] (matrix_T [[1, 2], [3, 4]]) = [[5, 11], [11, 25]]"
    by (simp add: np_dot_def matrix_T_def ncols_def inner_def upt_rec)
  then have c: "correct [[1, 2], [3, 4]] = [[5, 11], [11, 25]]"
    by (simp add: correct_def)
  have "symmetric_within_tolerance (correct [[1, 2], [3, 4]])"
    using correct_is_product_with_transpose [OF sq, of example_numpy] by blast
  with sq c show ?thesis by simp
qed

text \<open>
  The claim as stated fails at the zero matrix: its correction is the zero matrix again,
  whose eigenvalue 0 is not strictly positive.
\<close>

theorem correct_zero_matrix_not_pos_def:
  "square [[0]] \<and> correct [[0]] = [[0]] \<and> \<not> is_pos_def example_numpy (correct [[0]])"
  by (simp add: square_def correct_def np_dot_def matrix_T_def ncols_def inner_def
      is_pos_def_def example_numpy_def diagonal_def)

section \<open>Registering the event types\<close>

lemma db_one_None_iff:
  "(db_one d (event_id_sql s e) = None) = (e \<notin> registered d s)"
proof -
  have "(filter (\<lambda>row. snd row = e) (event_type d s) = []) = (e \<notin> snd ` set (event_type d s))"
    by (auto simp add: filter_empty_conv)
  then show ?thesis
    by (cases "filter (\<lambda>row. snd row = e) (event_type d s)")
       (simp_all add: event_id_sql_def registered_def)
qed

lemma register_event_present:
  "snd p \<in> registered d s \<Longrightarrow> register_event s p d = d"
  by (simp add: register_event_def db_one_None_iff)

lemma register_event_absent:
  "snd p \<notin> registered d s \<Longrightarrow>
     register_event s p d =
       d\<lparr> event_type := (event_type d)(s := event_type d s @ [event_type_row p]),
          executed := executed d @ [insert_statement s p] \<rparr>"
  by (simp add: register_event_def db_one_None_iff event_type_row_def insert_statement_def)

lemma registered_register_event:
  "registered (register_event s p d) s = insert (snd p) (registered d s)"
  by (cases "snd p \<in> registered d s")
     (auto simp add: register_event_present register_event_absent registered_def
        event_type_row_def)

lemma missing_from_Cons_present:
  assumes "b \<in> registered d s"
  shows "missing_from n d s (b # bs) = missing_from (Suc n) d s bs"
proof -
  have "filter (\<lambda>p. snd p \<notin> registered d s \<and> snd p \<notin> set (take (fst p - n) (b # bs)))
          (enumerate (Suc n) bs)
      = filter (\<lambda>p. snd p \<notin> registered d s \<and> snd p \<notin> set (take (fst p - Suc n) bs))
          (enumerate (Suc n) bs)"
  proof (rule filter_cong [OF refl])
    fix p assume "p \<in> set (enumerate (Suc n) bs)"
    then have "Suc n \<le> fst p" by (auto simp add: in_set_enumerate_eq)
    then obtain k where k: "fst p - n = Suc k" "fst p - Suc n = k"
      by (metis Suc_diff_le diff_Suc_Suc)
    show "(snd p \<notin> registered d s \<and> snd p \<notin> set (take (fst p - n) (b # bs)))
        = (snd p \<notin> registered d s \<and> snd p \<notin> set (take (fst p - Suc n) bs))"
      using assms k by auto
  qed
  with assms show ?thesis by (simp add: missing_from_def)
qed

lemma missing_from_Cons_absent:
  assumes "b \<notin> registered d s"
  shows "missing_from n d s (b # bs)
           = (n, b) # missing_from (Suc n) (register_event s (n, b) d) s bs"
proof -
  have "filter (\<lambda>p. snd p \<notin> registered d s \<and> snd p \<notin> set (take (fst p - n) (b # bs)))
          (enumerate (Suc n) bs)
      = filter (\<lambda>p. snd p \<notin> registered (register_event s (n, b) d) s
                   \<and> snd p \<notin> set (take (fst p - Suc n) bs))
          (enumerate (Suc n) bs)"
  proof (rule filter_cong [OF refl])
    fix p assume "p \<in> set (enumerate (Suc n) bs)"
    then have "Suc n \<le> fst p" by (auto simp add: in_set_enumerate_eq)
    then obtain k where k: "fst p - n = Suc k" "fst p - Suc n = k"
      by (metis Suc_diff_le diff_Suc_Suc)
    show "(snd p \<notin> registered d s \<and> snd p \<notin> set (take (fst p - n) (b # bs)))
        = (snd p \<notin> registered (register_event s (n, b) d) s
             \<and> snd p \<notin> set (take (fst p - Suc n) bs))"
      using k by (auto simp add: registered_register_event)
  qed
  with assms show ?thesis by (simp add: missing_from_def)
qed

text \<open>
  What the loop does from position \<open>n\<close> on: it executes one insert for every missing
  name, appends the same rows to the table of the schema, leaves the other schemas alone,
  and afterwards every name of the list is in the table.
\<close>

lemma fold_register_event:
  "executed (fold (register_event s) (enumerate n bs) d)
     = executed d @ map (insert_statement s) (missing_from n d s bs)
   \<and> event_type (fold (register_event s) (enumerate n bs) d) s
     = event_type d s @ map event_type_row (missing_from n d s bs)
   \<and> (\<forall>t. t \<noteq> s \<longrightarrow> event_type (fold (register_event s) (enumerate n bs) d) t = event_type d t)
   \<and> registered (fold (register_event s) (enumerate n bs) d) s = registered d s \<union> set bs"
proof (induction bs arbitrary: n d)
  case Nil
  show ?case by (simp add: missing_from_def)
next
  case (Cons b bs)
  show ?case
  proof (cases "b \<in> registered d s")
    case True
    then have "register_event s (n, b) d = d" by (simp add: register_event_present)
    with True Cons.IH [of "Suc n" d] show ?thesis
      by (auto simp add: missing_from_Cons_present)
  next
    case False
    let ?d = "register_event s (n, b) d"
    have d: "executed ?d = executed d @ [insert_statement s (n, b)]"
      "event_type ?d s = event_type d s @ [event_type_row (n, b)]"
      "\<And>t. t \<noteq> s \<Longrightarrow> event_type ?d t = event_type d t"
      "registered ?d s = insert b (registered d s)"
      using False
      by (simp_all only: registered_register_event snd_conv)
         (simp_all add: register_event_absent)
    from False Cons.IH [of "Suc n" ?d] show ?thesis
      by (simp add: missing_from_Cons_absent d)
  qed
qed

lemma missing_from_0: "missing_from 0 d s bs = missing_event_types d s bs"
  by (simp add: missing_from_def missing_event_types_def)

lemma fold_register_event_noop:
  "set bs \<subseteq> registered d s \<Longrightarrow> fold (register_event s) (enumerate n bs) d = d"
  by (induction bs arbitrary: n) (simp_all add: register_event_present)

lemma missing_all:
  assumes "distinct bs" "set bs \<inter> registered d s = {}"
  shows "missing_event_types d s bs = enumerate 0 bs"
proof -
  have "\<forall>p \<in> set (enumerate 0 bs). snd p \<notin> registered d s \<and> snd p \<notin> set (take (fst p) bs)"
  proof
    fix p assume "p \<in> set (enumerate 0 bs)"
    then have p: "fst p < length bs" "snd p = bs ! fst p"
      by (auto simp add: in_set_enumerate_eq)
    then have "snd p \<in> set bs" by simp
    with assms(2) have 1: "snd p \<notin> registered d s" by auto
    have 2: "snd p \<notin> set (take (fst p) bs)"
    proof
      assume "snd p \<in> set (take (fst p) bs)"
      then obtain k where "k < length (take (fst p) bs)" "take (fst p) bs ! k = snd p"
        by (auto simp add: in_set_conv_nth)
      then have "k < fst p" "bs ! k = bs ! fst p" using p by auto
      with assms(1) p(1) show False by (auto simp add: distinct_conv_nth)
    qed
    from 1 2 show "snd p \<notin> registered d s \<and> snd p \<notin> set (take (fst p) bs)" ..
  qed
  then show ?thesis by (simp add: missing_event_types_def)
qed

text \<open>
  C8, as the code has it. For every database and every list of behaviors, two calls in
  succession execute, in total, one insert for each behavior whose name is not in the
  table before the first call and stands at no earlier position of the list, and none
  for any other behavior; the inserted row is the position and the exact name; the
  second call executes nothing and leaves the database as the first call left it. When
  the names are distinct and none is in the table, that is one insert for every behavior.
\<close>

theorem insert_event_types_twice:
  "insert_event_types m s (insert_event_types m s d) = insert_event_types m s d
   \<and> executed (insert_event_types m s (insert_event_types m s d))
       = executed d @ map (insert_statement s) (missing_event_types d s (behave_names m))
   \<and> event_type (insert_event_types m s (insert_event_types m s d)) s
       = event_type d s @ map event_type_row (missing_event_types d s (behave_names m))
   \<and> (distinct (behave_names m) \<and> set (behave_names m) \<inter> registered d s = {}
        \<longrightarrow> missing_event_types d s (behave_names m) = enumerate 0 (behave_names m))"
proof -
  let ?d1 = "insert_event_types m s d"
  have "registered ?d1 s = registered d s \<union> set (behave_names m)"
    using fold_register_event [of s 0 "behave_names m" d] by (simp add: insert_event_types_def)
  then have "set (behave_names m) \<subseteq> registered ?d1 s" by simp
  then have noop: "insert_event_types m s ?d1 = ?d1"
    unfolding insert_event_types_def [of m s ?d1] by (rule fold_register_event_noop)
  show ?thesis
    using fold_register_event [of s 0 "behave_names m" d]
    by (simp add: noop missing_all) (simp add: insert_event_types_def missing_from_0)
qed

theorem insert_event_types_twice_witness:
  "distinct (behave_names example_model)
   \<and> set (behave_names example_model) \<inter> registered fresh_db ''churn'' = {}
   \<and> executed (insert_event_types example_model ''churn''
        (insert_event_types example_model ''churn'' fresh_db))
      = [Insert_event_type ''churn'' 0 ''login'', Insert_event_type ''churn'' 1 ''post'']"
proof -
  have h: "distinct (behave_names example_model)
      \<and> set (behave_names example_model) \<inter> registered fresh_db ''churn'' = {}"
    by (simp add: example_model_def fresh_db_def registered_def)
  note th = insert_event_types_twice [of example_model "''churn''" fresh_db]
  have mm: "missing_event_types fresh_db ''churn'' (behave_names example_model)
      = enumerate 0 (behave_names example_model)"
    using th h by blast
  have e: "executed (insert_event_types example_model ''churn''
        (insert_event_types example_model ''churn'' fresh_db))
      = executed fresh_db
        @ map (insert_statement ''churn'')
            (missing_event_types fresh_db ''churn'' (behave_names example_model))"
    using th by blast
  have "executed (insert_event_types example_model ''churn''
        (insert_event_types example_model ''churn'' fresh_db))
      = [Insert_event_type ''churn'' 0 ''login'', Insert_event_type ''churn'' 1 ''post'']"
    unfolding e mm by (simp add: example_model_def fresh_db_def insert_statement_def)
  with h show ?thesis by blast
qed

text \<open>
  The claim as stated fails on a database that already holds one of the names: with
  \<open>login\<close> registered, the two calls execute a single insert for the two behaviors.
\<close>

theorem insert_event_types_registered_counterexample:
  "behave_names example_model = [''login'', ''post'']
   \<and> executed example_db = []
   \<and> executed (insert_event_types example_model ''churn''
        (insert_event_types example_model ''churn'' example_db))
      = [Insert_event_type ''churn'' 1 ''post'']"
  by (simp add: insert_event_types_def example_model_def example_db_def register_event_def
      event_id_sql_def)

section \<open>The Normal variant\<close>

lemma series_min_Min: "xs \<noteq> [] \<Longrightarrow> series_min xs = Some (Min (set xs))"
  by (cases xs) (simp_all add: series_min_def Min.set_eq_fold [symmetric])

lemma monthly_rate_generate_customer:
  "monthly_rate (fst (generate_customer np m start a g))
     = clip_min (map_option (\<lambda>l. l * 0.01) (series_min (behave_means m)))
         (fst (np_multivariate_normal np g (behave_means m) (behave_cov m)))"
  by (simp add: generate_customer_def split: prod.splits)

text \<open>
  C5. Every rate that the Normal variant produces is at least 0.01 times the least mean.
  The rates are the sample clipped from below only: the result does not depend on the
  maxima of the model, and a component of the sample above the floor is returned as it
  is.
\<close>

theorem generate_customer_floor:
  "behave_means m \<noteq> [] \<Longrightarrow>
     (\<forall>r \<in> set (monthly_rate (fst (generate_customer np m start a g))).
        0.01 * Min (set (behave_means m)) \<le> r)
     \<and> monthly_rate (fst (generate_customer np m start a g))
         = map (\<lambda>x. max x (0.01 * Min (set (behave_means m))))
             (fst (np_multivariate_normal np g (behave_means m) (behave_cov m)))
     \<and> generate_customer np (m\<lparr>behave_maxs := mx\<rparr>) start a g
         = generate_customer np m start a g"
proof (intro conjI ballI)
  assume ne: "behave_means m \<noteq> []"
  show eq: "monthly_rate (fst (generate_customer np m start a g))
         = map (\<lambda>x. max x (0.01 * Min (set (behave_means m))))
             (fst (np_multivariate_normal np g (behave_means m) (behave_cov m)))"
    using ne by (simp add: monthly_rate_generate_customer series_min_Min clip_min_def)
  show "generate_customer np (m\<lparr>behave_maxs := mx\<rparr>) start a g
         = generate_customer np m start a g"
    by (simp add: generate_customer_def)
  fix r assume "r \<in> set (monthly_rate (fst (generate_customer np m start a g)))"
  then show "0.01 * Min (set (behave_means m)) \<le> r"
    unfolding eq by auto
qed

theorem generate_customer_floor_witness:
  "behave_means example_model \<noteq> []
   \<and> Min (set (behave_means example_model)) = 5
   \<and> monthly_rate (fst (generate_customer example_numpy example_model ''2024-01-01'' () 7))
       = [3, 0.05]"
proof -
  have h: "behave_means example_model \<noteq> []" by (simp add: example_model_def)
  have mn: "Min (set (behave_means example_model)) = 5" by (simp add: example_model_def)
  have "monthly_rate (fst (generate_customer example_numpy example_model ''2024-01-01'' () 7))
         = map (\<lambda>x. max x (0.01 * Min (set (behave_means example_model))))
             (fst (np_multivariate_normal example_numpy 7 (behave_means example_model)
                (behave_cov example_model)))"
    using generate_customer_floor [OF h, of example_numpy "''2024-01-01''" "()" 7] by blast
  also have "\<dots> = [3, 0.05]"
    unfolding mn by (simp add: example_model_def example_numpy_def counter_sample_def)
  finally show ?thesis using h mn by blast
qed

section \<open>The LogNormal variant\<close>










section \<open>The constructor\<close>

subsection \<open>Loading the parameters\<close>

lemma frame_select_Inr_iff:
  "(\<exists>cs. frame_select cols bs = Inr cs) = (set bs \<subseteq> fst ` set cols)"
proof (induction bs)
  case Nil
  show ?case by simp
next
  case (Cons b bs)
  show ?case
  proof (cases "map_of cols b")
    case None
    then have "b \<notin> fst ` set cols" by (simp add: map_of_eq_None_iff)
    with None show ?thesis by simp
  next
    case (Some c)
    then have "b \<in> fst ` set cols" by (force dest: map_of_SomeD)
    with Some Cons.IH show ?thesis
      by (cases "frame_select cols bs") auto
  qed
qed

lemma frame_select_Inl:
  "frame_select cols bs = Inl e \<Longrightarrow> \<exists>b \<in> set bs. b \<notin> fst ` set cols \<and> e = KeyError b"
proof (induction bs)
  case Nil
  then show ?case by simp
next
  case (Cons b bs)
  then show ?case
    by (auto simp add: map_of_eq_None_iff split: option.splits sum.splits)
qed

lemma frame_select_length:
  "frame_select cols bs = Inr cs \<Longrightarrow> length cs = length bs"
  by (induction bs arbitrary: cs) (auto split: option.splits sum.splits)

lemma square_frame_values: "length cs = n \<Longrightarrow> square (frame_values n cs)"
  by (simp add: square_def frame_values_def list_all_iff)

lemma load_parameters_cases:
  assumes "files w (model_path w nm ver) = Some f" "behavior_column f = Some names"
  shows "(\<not> set names \<subseteq> fst ` set (value_columns f)
            \<longrightarrow> (\<exists>k. load_parameters w nm ver = Inl (KeyError k)))
       \<and> (\<forall>m. load_parameters w nm ver = Inr m
            \<longrightarrow> behave_names m = names \<and> set names \<subseteq> fst ` set (value_columns f)
                \<and> square (behave_cov m) \<and> length (behave_cov m) = length names)"
proof (intro conjI impI allI)
  assume miss: "\<not> set names \<subseteq> fst ` set (value_columns f)"
  then have "\<not> (\<exists>cs. frame_select (value_columns f) names = Inr cs)"
    by (simp add: frame_select_Inr_iff)
  then obtain e where e: "frame_select (value_columns f) names = Inl e"
    by (cases "frame_select (value_columns f) names") auto
  then obtain b where "e = KeyError b" using frame_select_Inl by blast
  with e assms show "\<exists>k. load_parameters w nm ver = Inl (KeyError k)"
    by (simp add: load_parameters_def split: option.splits)
next
  fix m assume ok: "load_parameters w nm ver = Inr m"
  with assms obtain means cs where
    cs: "frame_select (value_columns f) names = Inr cs"
    and m: "m = \<lparr> name = nm, version = ver, behave_means = means,
                     behave_maxs = frame_get_max f,
                     behave_names = names,
                     behave_cov = frame_values (length names) cs \<rparr>"
    by (auto simp add: load_parameters_def split: option.splits sum.splits if_splits)
  from cs have sub: "set names \<subseteq> fst ` set (value_columns f)"
    using frame_select_Inr_iff by blast
  from cs have "length cs = length names" by (rule frame_select_length)
  then have "square (frame_values (length names) cs)" by (rule square_frame_values)
  with m sub show "behave_names m = names" "set names \<subseteq> fst ` set (value_columns f)"
    "square (behave_cov m)" "length (behave_cov m) = length names"
    by (simp_all add: frame_values_def)
qed

text \<open>
  The explicit check of line 87 never fails: a name without a column has already raised
  \<open>KeyError\<close> in the selection of line 84.
\<close>

lemma load_parameters_never_ValueError: "load_parameters w nm ver \<noteq> Inl ValueError"
proof
  assume a: "load_parameters w nm ver = Inl ValueError"
  then obtain f :: csv and names cs where
    "frame_select (value_columns f) names = Inr cs"
    "\<not> list_all (\<lambda>b. b \<in> set (map fst (value_columns f))) names"
    by (auto simp add: load_parameters_def split: option.splits sum.splits if_splits
        dest: frame_select_Inl)
  then show False
    using frame_select_Inr_iff [of "value_columns f" names] by (auto simp add: list_all_iff)
qed

lemma init_Inr_load:
  "NormalBehaviorModel_init np nm seed ver w = Inr (m, w') \<Longrightarrow>
     \<exists>m0. load_parameters w nm ver = Inr m0
       \<and> (m = m0 \<or> m = m0\<lparr>behave_cov := correct (behave_cov m0)\<rparr>)"
  by (auto simp add: NormalBehaviorModel_init_def handle_covariance_def Let_def
      split: sum.splits prod.splits if_splits list.splits)

lemma init_Inl_load:
  "load_parameters w nm ver = Inl e \<Longrightarrow> NormalBehaviorModel_init np nm seed ver w = Inl e"
  by (simp add: NormalBehaviorModel_init_def)

lemma model_path_rng [simp]: "model_path (w\<lparr>rng := g\<rparr>) nm ver = model_path w nm ver"
  by (simp add: model_path_def)

lemma load_parameters_rng [simp]:
  "load_parameters (w\<lparr>rng := g\<rparr>) nm ver = load_parameters w nm ver"
  by (simp add: load_parameters_def cong: option.case_cong)

subsection \<open>The constructor on the concrete files\<close>

lemma example_load_two:
  "load_parameters example_world ''two'' (Some ''v1'') = Inr example_model"
  by (simp add: load_parameters_def frame_get_max_def model_path_def str_def example_world_def
      two_behaviors_csv_def example_model_def frame_values_def upt_rec)

lemma example_model_pos_def: "is_pos_def example_numpy (behave_cov example_model)"
  by (simp add: is_pos_def_def example_model_def example_numpy_def diagonal_def upt_rec
      allclose_def matrix_T_def ncols_def isclose_def atol_def rtol_def)

lemma example_load_neg:
  "load_parameters example_world ''neg'' (Some ''v1'') = Inr negative_variance_model"
  by (simp add: load_parameters_def frame_get_max_def model_path_def str_def example_world_def
      negative_variance_csv_def negative_variance_model_def frame_values_def)

lemma example_load_gap:
  "load_parameters example_world ''gap'' (Some ''v1'') = Inr gapped_max_model"
  by (simp add: load_parameters_def frame_get_max_def model_path_def str_def example_world_def
      gapped_max_csv_def gapped_max_model_def frame_values_def upt_rec)

lemma negative_variance_invalid: "\<not> is_pos_def example_numpy [[-1]]"
  by (simp add: is_pos_def_def example_numpy_def diagonal_def)

lemma example_init_two_ex:
  "\<exists>w'. NormalBehaviorModel_init example_numpy ''two'' seed (Some ''v1'')
           (example_world\<lparr>rng := g\<rparr>) = Inr (example_model, w')
        \<and> rng w' = seed_generator example_numpy seed g"
proof -
  have i: "stdin example_world = [''n'']"
    by (simp add: example_world_def)
  have e: "environ example_world ''CHURN_OUT_DIR'' = Some ''/out''"
    "unwritable example_world = {}"
    by (simp_all add: example_world_def)
  show ?thesis
    by (simp add: NormalBehaviorModel_init_def example_load_two handle_covariance_def
        example_model_pos_def backup_def i e Let_def)
qed

text \<open>
  C7. When the file is read and has its \<open>behavior\<close> column, and some behavior name has
  no column of its own, the constructor fails with \<open>KeyError\<close>, the error of a
  configuration that lacks a column. When the constructor succeeds, every behavior name
  is a column, and the covariance has one row and one column for every behavior.
\<close>

theorem load_requires_every_column:
  assumes "files w (model_path w nm ver) = Some f" "behavior_column f = Some names"
  shows "(\<not> set names \<subseteq> fst ` set (value_columns f)
            \<longrightarrow> (\<exists>k. NormalBehaviorModel_init np nm seed ver w = Inl (KeyError k)))
       \<and> (\<forall>m w'. NormalBehaviorModel_init np nm seed ver w = Inr (m, w')
            \<longrightarrow> behave_names m = names \<and> set names \<subseteq> fst ` set (value_columns f)
                \<and> square (behave_cov m) \<and> length (behave_cov m) = length names)"
proof (intro conjI impI allI)
  assume "\<not> set names \<subseteq> fst ` set (value_columns f)"
  then obtain k where "load_parameters w nm ver = Inl (KeyError k)"
    using load_parameters_cases [OF assms] by blast
  then show "\<exists>k. NormalBehaviorModel_init np nm seed ver w = Inl (KeyError k)"
    by (auto simp add: init_Inl_load)
next
  fix m w' assume "NormalBehaviorModel_init np nm seed ver w = Inr (m, w')"
  then obtain m0 where m0: "load_parameters w nm ver = Inr m0"
    and mm: "m = m0 \<or> m = m0\<lparr>behave_cov := correct (behave_cov m0)\<rparr>"
    using init_Inr_load by blast
  have p: "behave_names m0 = names" "set names \<subseteq> fst ` set (value_columns f)"
     "square (behave_cov m0)" "length (behave_cov m0) = length names"
    using load_parameters_cases [OF assms] m0 by blast+
  from mm p show "behave_names m = names" by auto
  from p show "set names \<subseteq> fst ` set (value_columns f)" by simp
  from mm p show "square (behave_cov m)" by (auto simp add: square_correct)
  from mm p show "length (behave_cov m) = length names" by (auto simp add: length_correct)
qed


theorem load_requires_every_column_witness:
  "files example_world (model_path example_world ''miss'' (Some ''v1'')) = Some missing_column_csv
   \<and> behavior_column missing_column_csv = Some [''login'', ''post'']
   \<and> \<not> set [''login'', ''post''] \<subseteq> fst ` set (value_columns missing_column_csv)
   \<and> NormalBehaviorModel_init example_numpy ''miss'' None (Some ''v1'') example_world
       = Inl (KeyError ''post'')"
proof -
  have f: "files example_world (model_path example_world ''miss'' (Some ''v1''))
      = Some missing_column_csv"
    by (simp add: example_world_def model_path_def str_def)
  have b: "behavior_column missing_column_csv = Some [''login'', ''post'']"
    by (simp add: missing_column_csv_def)
  have m: "\<not> set [''login'', ''post''] \<subseteq> fst ` set (value_columns missing_column_csv)"
    by (simp add: missing_column_csv_def)
  obtain k where k: "NormalBehaviorModel_init example_numpy ''miss'' None (Some ''v1'')
      example_world = Inl (KeyError k)"
    using load_requires_every_column [OF f b, of example_numpy None] m by blast
  have "load_parameters example_world ''miss'' (Some ''v1'') = Inl (KeyError ''post'')"
    by (simp add: load_parameters_def f b) (simp add: missing_column_csv_def)
  then have "NormalBehaviorModel_init example_numpy ''miss'' None (Some ''v1'') example_world
       = Inl (KeyError ''post'')"
    by (rule init_Inl_load)
  with f b m k show ?thesis by simp
qed

subsection \<open>Seeding\<close>

lemma init_seeded:
  "s \<noteq> 0 \<Longrightarrow>
     NormalBehaviorModel_init np nm (Some s) ver w
       = NormalBehaviorModel_init np nm None ver (w\<lparr>rng := np_seed np s\<rparr>)"
  by (simp add: NormalBehaviorModel_init_def seed_generator_def cong: sum.case_cong)

lemma init_rng:
  "NormalBehaviorModel_init np nm seed ver w = Inr (m, w') \<Longrightarrow>
     rng w' = seed_generator np seed (rng w)"
  by (auto simp add: NormalBehaviorModel_init_def backup_def Let_def
      split: sum.splits prod.splits option.splits if_splits)

lemma lognormal_init_rng:
  "LogNormalBehaviorModel_init np nm base seed ver w = Inr (m, w') \<Longrightarrow>
     rng w' = seed_generator np seed (rng w)"
  by (auto simp add: LogNormalBehaviorModel_init_def split: sum.splits dest: init_rng)

text \<open>
  C9. The seed 0 does not seed the generator: the constructor (of either variant) does
  with the seed 0 exactly what it does without a seed, and leaves the generator in the
  state it found. Every other seed is passed to \<open>np.random.seed\<close>, and the generator
  is in the seeded state when the constructor returns.
\<close>

theorem seed_zero_is_no_seed:
  "seed_generator np (Some 0) g = seed_generator np None g
   \<and> (\<forall>s. s \<noteq> 0 \<longrightarrow> seed_generator np (Some s) g = np_seed np s)
   \<and> NormalBehaviorModel_init np nm (Some 0) ver w = NormalBehaviorModel_init np nm None ver w
   \<and> LogNormalBehaviorModel_init np nm base (Some 0) ver w
       = LogNormalBehaviorModel_init np nm base None ver w
   \<and> (\<forall>m w'. NormalBehaviorModel_init np nm (Some 0) ver w = Inr (m, w') \<longrightarrow> rng w' = rng w)
   \<and> (\<forall>s m w'. s \<noteq> 0 \<and> NormalBehaviorModel_init np nm (Some s) ver w = Inr (m, w')
         \<longrightarrow> rng w' = np_seed np s)
   \<and> (\<forall>s m w'. s \<noteq> 0 \<and> LogNormalBehaviorModel_init np nm base (Some s) ver w = Inr (m, w')
         \<longrightarrow> rng w' = np_seed np s)"
proof (intro conjI allI impI)
  show "seed_generator np (Some 0) g = seed_generator np None g"
    by (simp add: seed_generator_def)
next
  fix s :: int assume "s \<noteq> 0"
  then show "seed_generator np (Some s) g = np_seed np s"
    by (simp add: seed_generator_def)
next
  show z: "NormalBehaviorModel_init np nm (Some 0) ver w
      = NormalBehaviorModel_init np nm None ver w"
    by (simp add: NormalBehaviorModel_init_def seed_generator_def cong: sum.case_cong)
  then show "LogNormalBehaviorModel_init np nm base (Some 0) ver w
       = LogNormalBehaviorModel_init np nm base None ver w"
    by (simp add: LogNormalBehaviorModel_init_def)
next
  fix m w' assume "NormalBehaviorModel_init np nm (Some 0) ver w = Inr (m, w')"
  then show "rng w' = rng w" by (auto dest: init_rng simp add: seed_generator_def)
next
  fix s m w' assume "s \<noteq> 0 \<and> NormalBehaviorModel_init np nm (Some s) ver w = Inr (m, w')"
  then show "rng w' = np_seed np s" by (auto dest: init_rng simp add: seed_generator_def)
next
  fix s and m :: lognormal_model and w'
  assume "s \<noteq> 0 \<and> LogNormalBehaviorModel_init np nm base (Some s) ver w = Inr (m, w')"
  then show "rng w' = np_seed np s"
    by (auto dest: lognormal_init_rng simp add: seed_generator_def)
qed

theorem seed_zero_is_no_seed_witness:
  "map_sum id (\<lambda>r. rng (snd r))
     (NormalBehaviorModel_init example_numpy ''two'' (Some 0) (Some ''v1'') example_world)
     = Inr 7
   \<and> map_sum id (\<lambda>r. rng (snd r))
     (NormalBehaviorModel_init example_numpy ''two'' None (Some ''v1'') example_world)
     = Inr 7
   \<and> map_sum id (\<lambda>r. rng (snd r))
     (NormalBehaviorModel_init example_numpy ''two'' (Some 5) (Some ''v1'') example_world)
     = Inr 5"
proof -
  have w: "example_world\<lparr>rng := 7\<rparr> = example_world" by (simp add: example_world_def)
  obtain w0 where w0: "NormalBehaviorModel_init example_numpy ''two'' None (Some ''v1'')
           example_world = Inr (example_model, w0)" "rng w0 = 7"
    using example_init_two_ex [of None 7] by (auto simp add: w seed_generator_def)
  obtain w5 where w5: "NormalBehaviorModel_init example_numpy ''two'' (Some 5) (Some ''v1'')
           example_world = Inr (example_model, w5)"
    using example_init_two_ex [of "Some 5" 7] by (auto simp add: w)
  have "(5::int) \<noteq> 0
      \<and> NormalBehaviorModel_init example_numpy ''two'' (Some 5) (Some ''v1'') example_world
          = Inr (example_model, w5)"
    using w5 by simp
  then have "rng w5 = np_seed example_numpy 5"
    using seed_zero_is_no_seed
      [where np = example_numpy and nm = "''two''" and ver = "Some ''v1''"
         and w = example_world]
    by blast
  then have r5: "rng w5 = 5" by (simp add: example_numpy_def counter_seed_def)
  have z: "NormalBehaviorModel_init example_numpy ''two'' (Some 0) (Some ''v1'') example_world
      = NormalBehaviorModel_init example_numpy ''two'' None (Some ''v1'') example_world"
    using seed_zero_is_no_seed
      [where np = example_numpy and nm = "''two''" and ver = "Some ''v1''"
         and w = example_world]
    by blast
  show ?thesis
    unfolding z by (simp add: w0 w5 r5)
qed

subsection \<open>The backup\<close>

lemma backup_Inr:
  "environ w ''CHURN_OUT_DIR'' = Some out \<Longrightarrow> os_path_join out nm \<notin> unwritable w \<Longrightarrow>
     \<exists>w2. backup w nm ver = Inr w2 \<and> stdin w2 = stdin w \<and> rng w2 = rng w"
  by (simp add: backup_def Let_def)

lemma backup_unset: "environ w ''CHURN_OUT_DIR'' = None \<Longrightarrow> backup w nm ver = Inl TypeError"
  by (simp add: backup_def)

text \<open>
  C10. With \<open>CHURN_OUT_DIR\<close> unset the constructor of either variant fails, whatever
  the file, the seed and the answers; when the steps before the backup succeed, the error
  is the \<open>TypeError\<close> of joining a path from \<open>None\<close>. No model is returned, so nothing
  can be generated.
\<close>

theorem unset_out_dir_fails:
  "environ w ''CHURN_OUT_DIR'' = None \<Longrightarrow>
     (\<exists>e. NormalBehaviorModel_init np nm seed ver w = Inl e)
     \<and> (\<exists>e. LogNormalBehaviorModel_init np nm base seed ver w = Inl e)
     \<and> (\<forall>m r. load_parameters w nm ver = Inr m
              \<and> handle_covariance np (behave_cov m) (stdin w) = Inr r
           \<longrightarrow> NormalBehaviorModel_init np nm seed ver w = Inl TypeError)"
proof (intro conjI allI impI)
  assume u: "environ w ''CHURN_OUT_DIR'' = None"
  show n: "\<exists>e. NormalBehaviorModel_init np nm seed ver w = Inl e"
    using u by (auto simp add: NormalBehaviorModel_init_def backup_unset Let_def
        split: sum.splits prod.splits)
  then show "\<exists>e. LogNormalBehaviorModel_init np nm base seed ver w = Inl e"
    by (auto simp add: LogNormalBehaviorModel_init_def)
next
  fix m r
  assume u: "environ w ''CHURN_OUT_DIR'' = None"
    and "load_parameters w nm ver = Inr m
              \<and> handle_covariance np (behave_cov m) (stdin w) = Inr r"
  then show "NormalBehaviorModel_init np nm seed ver w = Inl TypeError"
    by (cases r) (simp add: NormalBehaviorModel_init_def backup_unset Let_def)
qed

theorem unset_out_dir_fails_witness:
  "environ (example_world\<lparr>environ := Map.empty\<rparr>) ''CHURN_OUT_DIR'' = None
   \<and> load_parameters (example_world\<lparr>environ := Map.empty\<rparr>) ''two'' (Some ''v1'')
        = Inr example_model
   \<and> NormalBehaviorModel_init example_numpy ''two'' (Some 5) (Some ''v1'')
        (example_world\<lparr>environ := Map.empty\<rparr>) = Inl TypeError"
proof -
  let ?w = "example_world\<lparr>environ := Map.empty\<rparr>"
  have u: "environ ?w ''CHURN_OUT_DIR'' = None" by simp
  have l: "load_parameters ?w ''two'' (Some ''v1'') = Inr example_model"
    by (simp add: load_parameters_def frame_get_max_def model_path_def str_def example_world_def
      two_behaviors_csv_def example_model_def frame_values_def upt_rec)
  have c: "handle_covariance example_numpy (behave_cov example_model) (stdin ?w)
      = Inr (behave_cov example_model, stdin ?w)"
    by (simp add: handle_covariance_def example_model_pos_def)
  show ?thesis
    using u l c unset_out_dir_fails [OF u, of example_numpy "''two''" "Some 5" "Some ''v1''"] 
    by blast
qed

subsection \<open>A covariance that fails the check\<close>

text \<open>
  C1, as the code has it. When the loaded covariance fails the check, the constructor
  asks on standard input. With no line to read it fails with \<open>EOFError\<close>. With an answer
  other than \<open>y\<close> or \<open>Y\<close> it goes on with the matrix as loaded, and returns the model
  with that matrix when the backup succeeds. With \<open>y\<close> or \<open>Y\<close> it goes on with the
  corrected matrix.
\<close>

theorem invalid_covariance_without_approval:
  "load_parameters w nm ver = Inr m \<Longrightarrow> \<not> is_pos_def np (behave_cov m) \<Longrightarrow>
     (stdin w = [] \<longrightarrow> NormalBehaviorModel_init np nm seed ver w = Inl EOFError)
     \<and> (\<forall>answer rest out.
           stdin w = answer # rest \<and> answer \<notin> {''y'', ''Y''}
           \<and> environ w ''CHURN_OUT_DIR'' = Some out \<and> os_path_join out nm \<notin> unwritable w
           \<longrightarrow> (\<exists>w'. NormalBehaviorModel_init np nm seed ver w = Inr (m, w')
                      \<and> stdin w' = rest))
     \<and> (\<forall>answer rest out.
           stdin w = answer # rest \<and> answer \<in> {''y'', ''Y''}
           \<and> environ w ''CHURN_OUT_DIR'' = Some out \<and> os_path_join out nm \<notin> unwritable w
           \<longrightarrow> (\<exists>w'. NormalBehaviorModel_init np nm seed ver w
                        = Inr (m\<lparr>behave_cov := correct (behave_cov m)\<rparr>, w')
                      \<and> stdin w' = rest))"
proof (intro conjI allI impI)
  assume "load_parameters w nm ver = Inr m" "\<not> is_pos_def np (behave_cov m)" "stdin w = []"
  then show "NormalBehaviorModel_init np nm seed ver w = Inl EOFError"
    by (simp add: NormalBehaviorModel_init_def handle_covariance_def Let_def)
next
  fix answer rest out
  assume l: "load_parameters w nm ver = Inr m" and inv: "\<not> is_pos_def np (behave_cov m)"
    and h: "stdin w = answer # rest \<and> answer \<notin> {''y'', ''Y''}
           \<and> environ w ''CHURN_OUT_DIR'' = Some out \<and> os_path_join out nm \<notin> unwritable w"
  let ?w1 = "w\<lparr>rng := seed_generator np seed (rng w), stdin := rest\<rparr>"
  from h obtain w2 where "backup ?w1 nm ver = Inr w2" "stdin w2 = stdin ?w1"
    using backup_Inr [of ?w1 out nm ver] by auto
  with l inv h show "\<exists>w'. NormalBehaviorModel_init np nm seed ver w = Inr (m, w')
                      \<and> stdin w' = rest"
    by (simp add: NormalBehaviorModel_init_def handle_covariance_def Let_def)
next
  fix answer rest out
  assume l: "load_parameters w nm ver = Inr m" and inv: "\<not> is_pos_def np (behave_cov m)"
    and h: "stdin w = answer # rest \<and> answer \<in> {''y'', ''Y''}
           \<and> environ w ''CHURN_OUT_DIR'' = Some out \<and> os_path_join out nm \<notin> unwritable w"
  let ?w1 = "w\<lparr>rng := seed_generator np seed (rng w), stdin := rest\<rparr>"
  from h obtain w2 where "backup ?w1 nm ver = Inr w2" "stdin w2 = stdin ?w1"
    using backup_Inr [of ?w1 out nm ver] by auto
  with l inv h show "\<exists>w'. NormalBehaviorModel_init np nm seed ver w
                        = Inr (m\<lparr>behave_cov := correct (behave_cov m)\<rparr>, w')
                      \<and> stdin w' = rest"
    by (simp add: NormalBehaviorModel_init_def handle_covariance_def Let_def)
qed

text \<open>
  The claim as stated fails: the file with the variance -1 fails the check, the answer is
  \<open>n\<close>, and the constructor returns a model with that covariance.
\<close>

theorem invalid_covariance_accepted_counterexample:
  "\<not> is_pos_def example_numpy [[-1]]
   \<and> stdin example_world = [''n'']
   \<and> map_sum id (\<lambda>r. behave_cov (fst r))
        (NormalBehaviorModel_init example_numpy ''neg'' None (Some ''v1'') example_world)
      = Inr [[-1]]"
proof -
  have c: "behave_cov negative_variance_model = [[-1]]"
    by (simp add: negative_variance_model_def)
  have i: "stdin example_world = [''n'']"
    by (simp add: example_world_def)
  have e: "environ example_world ''CHURN_OUT_DIR'' = Some ''/out''"
    "unwritable example_world = {}"
    by (simp_all add: example_world_def)
  show ?thesis
    by (simp add: negative_variance_invalid NormalBehaviorModel_init_def example_load_neg
        handle_covariance_def backup_def c i e Let_def)
qed

theorem invalid_covariance_without_approval_witness:
  "load_parameters example_world ''neg'' (Some ''v1'') = Inr negative_variance_model
   \<and> \<not> is_pos_def example_numpy (behave_cov negative_variance_model)
   \<and> stdin example_world = [''n''] \<and> ''n'' \<notin> {''y'', ''Y''}
   \<and> environ example_world ''CHURN_OUT_DIR'' = Some ''/out''
   \<and> os_path_join ''/out'' ''neg'' \<notin> unwritable example_world
   \<and> (\<exists>w'. NormalBehaviorModel_init example_numpy ''neg'' None (Some ''v1'') example_world
               = Inr (negative_variance_model, w') \<and> stdin w' = [])"
proof -
  have inv: "\<not> is_pos_def example_numpy (behave_cov negative_variance_model)"
    by (simp add: negative_variance_model_def negative_variance_invalid)
  have h: "stdin example_world = [''n''] \<and> ''n'' \<notin> {''y'', ''Y''}
     \<and> environ example_world ''CHURN_OUT_DIR'' = Some ''/out''
     \<and> os_path_join ''/out'' ''neg'' \<notin> unwritable example_world"
    by (simp add: example_world_def)
  show ?thesis
    using example_load_neg inv h
      invalid_covariance_without_approval [OF example_load_neg inv, of None]
    by blast
qed


text \<open>
  An approved correction need not make the matrix valid: the file with the variance 0 and
  the answer \<open>y\<close> give a model whose corrected covariance is the zero matrix.
\<close>

lemma approved_correction_can_stay_invalid:
  "map_sum id (\<lambda>r. behave_cov (fst r))
        (NormalBehaviorModel_init example_numpy ''zero'' None (Some ''v1'')
           (example_world\<lparr>stdin := [''y'']\<rparr>))
      = Inr [[0]]
   \<and> \<not> is_pos_def example_numpy [[0]]"
proof -
  have inv: "\<not> is_pos_def example_numpy [[0]]"
    by (simp add: is_pos_def_def example_numpy_def diagonal_def)
  have l: "load_parameters (example_world\<lparr>stdin := [''y'']\<rparr>) ''zero'' (Some ''v1'')
      = Inr \<lparr> name = ''zero'', version = Some ''v1'', behave_means = [10],
              behave_maxs = None, behave_names = [''login''], behave_cov = [[0]] \<rparr>"
    by (simp add: load_parameters_def frame_get_max_def model_path_def str_def example_world_def
        zero_variance_csv_def frame_values_def)
  have c: "correct [[0]] = [[0]]"
    by (simp add: correct_def np_dot_def matrix_T_def ncols_def inner_def)
  have e: "environ example_world ''CHURN_OUT_DIR'' = Some ''/out''"
    "unwritable example_world = {}"
    by (simp_all add: example_world_def)
  show ?thesis
    by (simp add: inv NormalBehaviorModel_init_def l handle_covariance_def backup_def c e
        Let_def)
qed

section \<open>Determinism\<close>

text \<open>
  C6, as the code has it. Two runs that are given the same seed other than 0, on the
  same files, environment and answers, and make the same calls, give the same rate
  vectors, whatever state the generator was in before each run; this holds for both
  variants. The seed 0 is left out: the constructor does not seed the generator with it.
\<close>

theorem seeded_runs_identical:
  "s \<noteq> 0 \<Longrightarrow>
     normal_run np nm (Some s) ver calls (w\<lparr>rng := g1\<rparr>)
       = normal_run np nm (Some s) ver calls (w\<lparr>rng := g2\<rparr>)
     \<and> lognormal_run np nm base (Some s) ver calls (w\<lparr>rng := g1\<rparr>)
       = lognormal_run np nm base (Some s) ver calls (w\<lparr>rng := g2\<rparr>)"
proof -
  assume s: "s \<noteq> 0"
  have "NormalBehaviorModel_init np nm (Some s) ver (w\<lparr>rng := g1\<rparr>)
      = NormalBehaviorModel_init np nm (Some s) ver (w\<lparr>rng := g2\<rparr>)"
    using s by (simp add: init_seeded)
  then show ?thesis
    by (simp add: normal_run_def lognormal_run_def LogNormalBehaviorModel_init_def)
qed

lemma example_generate_two:
  "map monthly_rate (fst (generate_customers example_numpy example_model
       [(''2024-01-01'', ()), (''2024-02-01'', ())] g))
     = [[max (10 - real g) 0.05, max (5 - real g) 0.05],
        [max (10 - real (Suc g)) 0.05, max (5 - real (Suc g)) 0.05]]"
  by (simp add: generate_customer_def example_numpy_def counter_sample_def example_model_def
      series_min_def clip_min_def)

theorem seeded_runs_identical_witness:
  "(5::int) \<noteq> 0
   \<and> normal_run example_numpy ''two'' (Some 5) (Some ''v1'')
        [(''2024-01-01'', ()), (''2024-02-01'', ())] (example_world\<lparr>rng := 1\<rparr>)
      = Inr [[5, 0.05], [4, 0.05]]
   \<and> normal_run example_numpy ''two'' (Some 5) (Some ''v1'')
        [(''2024-01-01'', ()), (''2024-02-01'', ())] (example_world\<lparr>rng := 2\<rparr>)
      = Inr [[5, 0.05], [4, 0.05]]"
proof -
  have h: "(5::int) \<noteq> 0" by simp
  obtain w' where w': "NormalBehaviorModel_init example_numpy ''two'' (Some 5) (Some ''v1'')
           (example_world\<lparr>rng := 1\<rparr>) = Inr (example_model, w')"
    "rng w' = seed_generator example_numpy (Some 5) 1"
    using example_init_two_ex [of "Some 5" 1] by blast
  have g: "rng w' = 5"
    using w'(2) by (simp add: seed_generator_def example_numpy_def counter_seed_def)
  have r1: "normal_run example_numpy ''two'' (Some 5) (Some ''v1'')
        [(''2024-01-01'', ()), (''2024-02-01'', ())] (example_world\<lparr>rng := 1\<rparr>)
      = Inr [[5, 0.05], [4, 0.05]]"
    unfolding normal_run_def w'(1) by (simp add: g example_generate_two del: generate_customers.simps)
  have "normal_run example_numpy ''two'' (Some 5) (Some ''v1'')
        [(''2024-01-01'', ()), (''2024-02-01'', ())] (example_world\<lparr>rng := 1\<rparr>)
      = normal_run example_numpy ''two'' (Some 5) (Some ''v1'')
        [(''2024-01-01'', ()), (''2024-02-01'', ())] (example_world\<lparr>rng := 2\<rparr>)"
    by (rule seeded_runs_identical [OF h, THEN conjunct1])
  with r1 h show ?thesis by simp
qed

text \<open>
  The claim as stated fails at the seed 0: two runs that are both given the seed 0, on the
  same files, environment and answers, follow the state the generator happened to have,
  and give different rates for the same call.
\<close>

theorem seed_zero_runs_differ_counterexample:
  "normal_run example_numpy ''two'' (Some 0) (Some ''v1'') [(''2024-01-01'', ())]
        (example_world\<lparr>rng := 1\<rparr>) = Inr [[9, 4]]
   \<and> normal_run example_numpy ''two'' (Some 0) (Some ''v1'') [(''2024-01-01'', ())]
        (example_world\<lparr>rng := 2\<rparr>) = Inr [[8, 3]]
   \<and> normal_run example_numpy ''two'' (Some 0) (Some ''v1'') [(''2024-01-01'', ())]
        (example_world\<lparr>rng := 1\<rparr>)
      \<noteq> normal_run example_numpy ''two'' (Some 0) (Some ''v1'') [(''2024-01-01'', ())]
        (example_world\<lparr>rng := 2\<rparr>)"
proof -
  have "\<And>g. normal_run example_numpy ''two'' (Some 0) (Some ''v1'') [(''2024-01-01'', ())]
        (example_world\<lparr>rng := g\<rparr>) = Inr [[max (10 - real g) 0.05, max (5 - real g) 0.05]]"
  proof -
    fix g
    obtain w' where w': "NormalBehaviorModel_init example_numpy ''two'' (Some 0) (Some ''v1'')
           (example_world\<lparr>rng := g\<rparr>) = Inr (example_model, w')"
      "rng w' = seed_generator example_numpy (Some 0) g"
      using example_init_two_ex [of "Some 0" g] by blast
    have g: "rng w' = g" using w'(2) by (simp add: seed_generator_def)
    show "normal_run example_numpy ''two'' (Some 0) (Some ''v1'') [(''2024-01-01'', ())]
        (example_world\<lparr>rng := g\<rparr>) = Inr [[max (10 - real g) 0.05, max (5 - real g) 0.05]]"
      unfolding normal_run_def w'(1)
      by (simp add: g generate_customer_def example_numpy_def counter_sample_def
          example_model_def series_min_def clip_min_def)
  qed
  then show ?thesis by simp
qed

end
